theory Spec2Isabelle
  imports Main
begin

unbundle bit_operations_syntax

section \<open>Data of the gateway library, as the client reads it\<close>

text \<open>
  The client in package \<open>discord\<close> wraps the gateway library \<open>discordgo\<close>. The library
  is not part of the repository: its structs are modelled with the fields the client
  reads, and its operations (the per-shard cache lookups, the outbound calls) are fields
  of function type, so that every theorem holds for whatever the library answers.

  A Go \<open>error\<close> is \<open>error option\<close> (\<open>None\<close> is \<open>nil\<close>), a pointer that the source
  tests against \<open>nil\<close> or receives next to an \<open>error\<close> is an \<open>option\<close>, and a pair of
  results \<open>(value, err)\<close> is a pair. Every other pointer is the value it points to, and
  slices of pointers (\<open>Roles\<close>, \<open>Members\<close>, \<open>Sessions\<close>) are lists of values.
  Strings are byte lists, as in Go.
\<close>

datatype error = Error string

record discordgo_User =
  User_ID :: string
  User_Username :: string
  User_Avatar :: string
  User_Bot :: bool

record discordgo_Role =
  Role_ID :: string
  Role_Name :: string

record discordgo_Member =
  Member_User :: discordgo_User
  Member_Nick :: string

record discordgo_Channel =
  Channel_ID :: string
  Channel_GuildID :: string
  Channel_Name :: string

record discordgo_Guild =
  Guild_ID :: string
  Guild_OwnerID :: string
  Guild_Roles :: "discordgo_Role list"
  Guild_Members :: "discordgo_Member list"

record discordgo_Message =
  Message_ID :: string
  Message_ChannelID :: string
  Message_Content :: string
  Message_Author :: "discordgo_User option"

record discordgo_MessageEmbed =
  Embed_Color :: int
  Embed_Description :: string

text \<open>
  The cache of one shard (\<open>session.State\<close>): the logged-in user and the four lookups the
  client calls on it, with the library's result types.
\<close>

record discordgo_State =
  State_User :: "discordgo_User option"
  State_Channel :: "string \<Rightarrow> discordgo_Channel option \<times> error option"
  State_Guild :: "string \<Rightarrow> discordgo_Guild option \<times> error option"
  State_UserChannelPermissions :: "string \<Rightarrow> string \<Rightarrow> int \<times> error option"
  State_UserColor :: "string \<Rightarrow> string \<Rightarrow> int"

text \<open>
  The outbound transport: each call the client makes on a session is a value of \<open>call\<close>;
  \<open>Session_transport\<close> is the error the library answers it with (\<open>None\<close> for success).
  The reader of \<open>ChannelFileSend\<close> is the bytes it yields.
\<close>

datatype call =
  ChannelMessageSend string string
| ChannelMessageSendEmbed string discordgo_MessageEmbed
| ChannelFileSend string string string

record discordgo_Session =
  Session_State :: discordgo_State
  Session_transport :: "call \<Rightarrow> error option"

section \<open>The client\<close>

text \<open>
  \<open>type Discord struct\<close>: \<open>Session\<close> is the session the outbound calls go through,
  \<open>Sessions\<close> is the shard list in shard order. (The channel \<open>messageChan\<close> is passed
  to the handlers that send on it.)
\<close>

record Discord =
  Discord_Session :: discordgo_Session
  Discord_Sessions :: "discordgo_Session list"
  OwnerUserID :: string

text \<open>
  A dereference of a \<open>nil\<close> pointer panics. An operation that can do so returns an
  \<open>outcome\<close>.
\<close>

datatype 'a outcome = Returns 'a | Panics

fun bind_outcome :: "'a outcome \<Rightarrow> ('a \<Rightarrow> 'b outcome) \<Rightarrow> 'b outcome" where
  "bind_outcome Panics f = Panics"
| "bind_outcome (Returns x) f = f x"

subsection \<open>State aggregator\<close>

text \<open>
  \<open>Channel\<close>, \<open>Guild\<close> and \<open>UserChannelPermissions\<close> have named results, assigned in
  every round of the loop over \<open>d.Sessions\<close>; the bare \<open>return\<close> after the loop returns
  what the last round assigned, or the zero values when there was no round. The
  accumulator of each loop function is the pair of named results.
\<close>

fun Channel_range ::
  "discordgo_Session list \<Rightarrow> string \<Rightarrow> discordgo_Channel option \<times> error option
     \<Rightarrow> discordgo_Channel option \<times> error option" where
  "Channel_range [] channelID res = res"
| "Channel_range (s # ss) channelID res =
     (case State_Channel (Session_State s) channelID of
        (channel, err) \<Rightarrow>
          if err = None then (channel, None) else Channel_range ss channelID (channel, err))"

definition Channel :: "Discord \<Rightarrow> string \<Rightarrow> discordgo_Channel option \<times> error option" where
  "Channel d channelID = Channel_range (Discord_Sessions d) channelID (None, None)"

fun Guild_range ::
  "discordgo_Session list \<Rightarrow> string \<Rightarrow> discordgo_Guild option \<times> error option
     \<Rightarrow> discordgo_Guild option \<times> error option" where
  "Guild_range [] guildID res = res"
| "Guild_range (s # ss) guildID res =
     (case State_Guild (Session_State s) guildID of
        (guild, err) \<Rightarrow>
          if err = None then (guild, None) else Guild_range ss guildID (guild, err))"

definition Guild :: "Discord \<Rightarrow> string \<Rightarrow> discordgo_Guild option \<times> error option" where
  "Guild d guildID = Guild_range (Discord_Sessions d) guildID (None, None)"

fun UserChannelPermissions_range ::
  "discordgo_Session list \<Rightarrow> string \<Rightarrow> string \<Rightarrow> int \<times> error option
     \<Rightarrow> int \<times> error option" where
  "UserChannelPermissions_range [] userID channelID res = res"
| "UserChannelPermissions_range (s # ss) userID channelID res =
     (case State_UserChannelPermissions (Session_State s) userID channelID of
        (apermissions, err) \<Rightarrow>
          if err = None then (apermissions, None)
          else UserChannelPermissions_range ss userID channelID (apermissions, err))"

definition UserChannelPermissions :: "Discord \<Rightarrow> string \<Rightarrow> string \<Rightarrow> int \<times> error option" where
  "UserChannelPermissions d userID channelID =
     UserChannelPermissions_range (Discord_Sessions d) userID channelID (0, None)"

fun UserColor_range :: "discordgo_Session list \<Rightarrow> string \<Rightarrow> string \<Rightarrow> int" where
  "UserColor_range [] userID channelID = 0"
| "UserColor_range (s # ss) userID channelID =
     (let color = State_UserColor (Session_State s) userID channelID
      in if color \<noteq> 0 then color else UserColor_range ss userID channelID)"

definition UserColor :: "Discord \<Rightarrow> string \<Rightarrow> string \<Rightarrow> int" where
  "UserColor d userID channelID = UserColor_range (Discord_Sessions d) userID channelID"

text \<open>\<open>func (d *Discord) UserID()\<close>: reads \<open>d.Session.State.User\<close>.\<close>

definition Discord_UserID :: "Discord \<Rightarrow> string" where
  "Discord_UserID d =
     (case State_User (Session_State (Discord_Session d)) of
        None \<Rightarrow> ''''
      | Some u \<Rightarrow> User_ID u)"

subsection \<open>Content normalizer\<close>

text \<open>
  Both regular expressions of the source have the shape \<open>lit[0-9]*>\<close> with a literal
  prefix \<open>lit\<close> (\<open><#\<close> for \<open>channelIDRegex\<close>, \<open><@&\<close> for \<open>roleIDRegex\<close>), and a compiled
  expression is modelled by that prefix. A match at the start of \<open>s\<close> is the prefix, the
  longest run of digits, and \<open>>\<close>: since the digit class excludes \<open>>\<close>, a shorter run
  of digits never matches, so the leftmost-first match of Go's \<open>regexp\<close> is this one.
  \<open>matchToken\<close> returns the matched text and the rest of the input.
\<close>

definition isDigit :: "char \<Rightarrow> bool" where
  "isDigit c \<longleftrightarrow> c \<in> set ''0123456789''"

fun matchLiteral :: "string \<Rightarrow> string \<Rightarrow> string option" where
  "matchLiteral [] s = Some s"
| "matchLiteral (p # ps) [] = None"
| "matchLiteral (p # ps) (c # cs) = (if p = c then matchLiteral ps cs else None)"

definition matchToken :: "string \<Rightarrow> string \<Rightarrow> (string \<times> string) option" where
  "matchToken lit s =
     (case matchLiteral lit s of
        None \<Rightarrow> None
      | Some r \<Rightarrow>
          (case dropWhile isDigit r of
             [] \<Rightarrow> None
           | c # rest \<Rightarrow>
               if c = CHR ''>'' then Some (lit @ takeWhile isDigit r @ ''>'', rest)
               else None))"

text \<open>
  \<open>ReplaceAllStringFunc\<close> scans the input from the left: where the expression matches,
  the match is handed to the callback and the scan goes on after it; elsewhere one byte
  is copied. \<open>pieces\<close> is the scan, \<open>render\<close> applies the callback (a panic of the
  callback is the panic of the whole call).
\<close>

datatype piece = Unmatched char | Matched string

function pieces :: "string \<Rightarrow> string \<Rightarrow> piece list" where
  "pieces lit [] = []"
| "pieces lit (c # cs) =
     (case matchToken lit (c # cs) of
        Some (m, rest) \<Rightarrow> Matched m # pieces lit rest
      | None \<Rightarrow> Unmatched c # pieces lit cs)"
  by pat_completeness auto
termination
proof (relation "measure (\<lambda>(lit, s). length s)")
  show "wf (measure (\<lambda>(lit, s). length s))" by simp
next
  fix lit :: string and c :: char and cs x y :: string and x2 :: "string \<times> string"
  assume tok: "matchToken lit (c # cs) = Some x2" and x2: "(x, y) = x2"
  have lit_le: "length r \<le> length s" if "matchLiteral p s = Some r" for p s r
    using that by (induction p s rule: matchLiteral.induct) (auto split: if_splits)
  from tok x2 obtain r where r: "matchLiteral lit (c # cs) = Some r"
    and d: "dropWhile isDigit r = CHR ''>'' # y"
    by (auto simp: matchToken_def split: option.splits list.splits if_splits)
  have "length (dropWhile isDigit r) \<le> length r"
    by (rule length_dropWhile_le)
  with d have "length y < length r" by simp
  with lit_le [OF r] show "((lit, y), (lit, c # cs)) \<in> measure (\<lambda>(lit, s). length s)"
    by simp
next
  fix lit :: string and c :: char and cs :: string
  show "((lit, cs), (lit, c # cs)) \<in> measure (\<lambda>(lit, s). length s)" by simp
qed

fun render :: "(string \<Rightarrow> string outcome) \<Rightarrow> piece list \<Rightarrow> string outcome" where
  "render repl [] = Returns []"
| "render repl (Unmatched c # ps) =
     bind_outcome (render repl ps) (\<lambda>out. Returns (c # out))"
| "render repl (Matched m # ps) =
     bind_outcome (repl m) (\<lambda>r. bind_outcome (render repl ps) (\<lambda>out. Returns (r @ out)))"

definition ReplaceAllStringFunc ::
  "string \<Rightarrow> string \<Rightarrow> (string \<Rightarrow> string outcome) \<Rightarrow> string outcome" where
  "ReplaceAllStringFunc re src repl = render repl (pieces re src)"

definition channelIDRegex :: string where
  "channelIDRegex = ''<#''"

definition roleIDRegex :: string where
  "roleIDRegex = ''<@&''"

text \<open>
  The slice expression \<open>str[lo : len(str)-1]\<close> of the two callbacks; it panics when
  \<open>lo > len(str)-1\<close>.
\<close>

definition slice_to_last :: "nat \<Rightarrow> string \<Rightarrow> string outcome" where
  "slice_to_last lo str =
     (if lo + 1 \<le> length str then Returns (take (length str - 1 - lo) (drop lo str))
      else Panics)"

text \<open>
  The callback of \<open>replaceChannelNames\<close>: \<open>str[2 : len(str)-1]\<close> is the channel ID. When
  \<open>d.Channel\<close> returns no error, \<open>c.Name\<close> is read, which panics on a \<open>nil\<close> channel.
\<close>

definition replaceChannelNames_func :: "Discord \<Rightarrow> string \<Rightarrow> string outcome" where
  "replaceChannelNames_func d str =
     bind_outcome (slice_to_last 2 str) (\<lambda>channelID.
       case Channel d channelID of
         (c, err) \<Rightarrow>
           if err \<noteq> None then Returns str
           else (case c of None \<Rightarrow> Panics | Some c \<Rightarrow> Returns (''#'' @ Channel_Name c)))"

definition replaceChannelNames :: "Discord \<Rightarrow> discordgo_Message \<Rightarrow> string \<Rightarrow> string outcome" where
  "replaceChannelNames d message content =
     ReplaceAllStringFunc channelIDRegex content (replaceChannelNames_func d)"

text \<open>
  The callback of \<open>replaceRoleNames\<close>: \<open>str[3 : len(str)-1]\<close> is the role ID; the loop
  over \<open>g.Roles\<close> returns at the first role with that ID, and the token is returned when
  the loop ends.
\<close>

fun Roles_range :: "discordgo_Role list \<Rightarrow> string \<Rightarrow> string \<Rightarrow> string" where
  "Roles_range [] roleID str = str"
| "Roles_range (r # rs) roleID str =
     (if Role_ID r = roleID then ''@'' @ Role_Name r else Roles_range rs roleID str)"

definition replaceRoleNames_func :: "Discord \<Rightarrow> discordgo_Message \<Rightarrow> string \<Rightarrow> string outcome" where
  "replaceRoleNames_func d message str =
     bind_outcome (slice_to_last 3 str) (\<lambda>roleID.
       case Channel d (Message_ChannelID message) of
         (c, err) \<Rightarrow>
           if err \<noteq> None then Returns str
           else (case c of
                   None \<Rightarrow> Panics
                 | Some c \<Rightarrow>
                     (case Guild d (Channel_GuildID c) of
                        (g, err) \<Rightarrow>
                          if err \<noteq> None then Returns str
                          else (case g of
                                  None \<Rightarrow> Panics
                                | Some g \<Rightarrow> Returns (Roles_range (Guild_Roles g) roleID str)))))"

definition replaceRoleNames :: "Discord \<Rightarrow> discordgo_Message \<Rightarrow> string \<Rightarrow> string outcome" where
  "replaceRoleNames d message content =
     ReplaceAllStringFunc roleIDRegex content (replaceRoleNames_func d message)"

text \<open>
  \<open>NicknameForID\<close>: the loop over \<open>g.Members\<close> stops at the first member with the user's
  ID, returning the nickname when it is not empty; in every other case the user name is
  returned.
\<close>

fun Members_range :: "discordgo_Member list \<Rightarrow> string \<Rightarrow> string \<Rightarrow> string" where
  "Members_range [] userID userName = userName"
| "Members_range (m # ms) userID userName =
     (if User_ID (Member_User m) = userID then
        (if Member_Nick m \<noteq> '''' then Member_Nick m else userName)
      else Members_range ms userID userName)"

definition NicknameForID :: "Discord \<Rightarrow> string \<Rightarrow> string \<Rightarrow> string \<Rightarrow> string outcome" where
  "NicknameForID d userID userName channelID =
     (case Channel d channelID of
        (c, err) \<Rightarrow>
          if err = None then
            (case c of
               None \<Rightarrow> Panics
             | Some c \<Rightarrow>
                 (case Guild d (Channel_GuildID c) of
                    (g, err) \<Rightarrow>
                      if err = None then
                        (case g of
                           None \<Rightarrow> Panics
                         | Some g \<Rightarrow> Returns (Members_range (Guild_Members g) userID userName))
                      else Returns userName))
          else Returns userName)"

subsection \<open>Message envelope\<close>

datatype MessageType = MessageTypeCreate | MessageTypeUpdate | MessageTypeDelete

text \<open>
  \<open>type DiscordMessage struct\<close>. The field \<open>Discord\<close> is a pointer to the client: the
  accessors that follow it take the client as it is at the time of the call as an
  argument. \<open>Nick\<close> and \<open>Content\<close> are the two caches (\<open>nil\<close> until computed); an
  accessor that may write one returns the message next to its result.
\<close>

record DiscordMessage =
  DiscordgoMessage :: discordgo_Message
  MessageType :: MessageType
  Nick :: "string option"
  Content :: "string option"

definition DiscordMessage_UserName ::
  "Discord \<Rightarrow> DiscordMessage \<Rightarrow> (string \<times> DiscordMessage) outcome" where
  "DiscordMessage_UserName d m =
     (let me = DiscordgoMessage m
      in case Message_Author me of
           None \<Rightarrow> Returns ('''', m)
         | Some author \<Rightarrow>
             (case Nick m of
                None \<Rightarrow>
                  bind_outcome
                    (NicknameForID d (User_ID author) (User_Username author) (Message_ChannelID me))
                    (\<lambda>n. Returns (n, m\<lparr>Nick := Some n\<rparr>))
              | Some n \<Rightarrow> Returns (n, m)))"

definition DiscordMessage_UserID :: "DiscordMessage \<Rightarrow> string" where
  "DiscordMessage_UserID m =
     (case Message_Author (DiscordgoMessage m) of
        None \<Rightarrow> ''''
      | Some author \<Rightarrow> User_ID author)"

text \<open>
  \<open>EndpointUserAvatar\<close> is the library's function from a user ID and an avatar hash to
  the avatar's URL; it is a parameter.
\<close>

definition DiscordMessage_UserAvatar ::
  "(string \<Rightarrow> string \<Rightarrow> string) \<Rightarrow> DiscordMessage \<Rightarrow> string" where
  "DiscordMessage_UserAvatar EndpointUserAvatar m =
     (case Message_Author (DiscordgoMessage m) of
        None \<Rightarrow> ''''
      | Some author \<Rightarrow> EndpointUserAvatar (User_ID author) (User_Avatar author))"

text \<open>
  \<open>func (m *DiscordMessage) Message()\<close>. \<open>ContentWithMentionsReplaced\<close> is the library's
  method on the raw message (it rewrites the user mentions); it is a parameter.
\<close>

definition DiscordMessage_Message ::
  "(discordgo_Message \<Rightarrow> string) \<Rightarrow> Discord \<Rightarrow> DiscordMessage
     \<Rightarrow> (string \<times> DiscordMessage) outcome" where
  "DiscordMessage_Message ContentWithMentionsReplaced d m =
     (case Content m of
        None \<Rightarrow>
          bind_outcome (replaceRoleNames d (DiscordgoMessage m)
                          (ContentWithMentionsReplaced (DiscordgoMessage m)))
            (\<lambda>c. bind_outcome (replaceChannelNames d (DiscordgoMessage m) c)
                    (\<lambda>c. Returns (c, m\<lparr>Content := Some c\<rparr>)))
      | Some c \<Rightarrow> Returns (c, m))"

subsection \<open>Event dispatcher\<close>

text \<open>
  The three handlers send on \<open>d.messageChan\<close>: the channel is the list of the envelopes
  sent so far, oldest first, and a handler returns it after its send, if any. (The field
  \<open>Discord\<close> of the envelope is the pointer \<open>d\<close> itself.)
\<close>

definition onMessageCreate :: "DiscordMessage list \<Rightarrow> discordgo_Message \<Rightarrow> DiscordMessage list" where
  "onMessageCreate messageChan message =
     (if Message_Content message = ''''
         \<or> (case Message_Author message of None \<Rightarrow> False | Some author \<Rightarrow> User_Bot author)
      then messageChan
      else messageChan @
        [\<lparr>DiscordgoMessage = message, MessageType = MessageTypeCreate,
          Nick = None, Content = None\<rparr>])"

definition onMessageUpdate :: "DiscordMessage list \<Rightarrow> discordgo_Message \<Rightarrow> DiscordMessage list" where
  "onMessageUpdate messageChan message =
     (if Message_Content message = ''''
         \<or> (case Message_Author message of None \<Rightarrow> False | Some author \<Rightarrow> User_Bot author)
      then messageChan
      else messageChan @
        [\<lparr>DiscordgoMessage = message, MessageType = MessageTypeUpdate,
          Nick = None, Content = None\<rparr>])"

definition onMessageDelete :: "DiscordMessage list \<Rightarrow> discordgo_Message \<Rightarrow> DiscordMessage list" where
  "onMessageDelete messageChan message =
     messageChan @
       [\<lparr>DiscordgoMessage = message, MessageType = MessageTypeDelete,
         Nick = None, Content = None\<rparr>]"

subsection \<open>Action gateway\<close>

text \<open>
  A send operation returns its \<open>error\<close> result and the calls it made on the transport,
  in order. (The lines written with \<open>log.Println\<close> are not modelled.)
\<close>

definition Session_call :: "Discord \<Rightarrow> call \<Rightarrow> error option \<times> call list" where
  "Session_call d c = (Session_transport (Discord_Session d) c, [c])"

definition SendMessage :: "Discord \<Rightarrow> string \<Rightarrow> string \<Rightarrow> error option \<times> call list" where
  "SendMessage d channel message =
     (if channel = '''' then (None, [])
      else Session_call d (ChannelMessageSend channel message))"

definition SendEmbedMessage ::
  "Discord \<Rightarrow> string \<Rightarrow> discordgo_MessageEmbed \<Rightarrow> error option \<times> call list" where
  "SendEmbedMessage d channel message =
     (if channel = '''' then (None, [])
      else Session_call d (ChannelMessageSendEmbed channel message))"

text \<open>
  \<open>SendAction\<close>; \<open>PermissionEmbedLinks\<close> is the library's constant for the permission bit,
  a parameter.
\<close>

definition SendAction ::
  "int \<Rightarrow> Discord \<Rightarrow> string \<Rightarrow> string \<Rightarrow> error option \<times> call list" where
  "SendAction PermissionEmbedLinks d channel message =
     (if channel = '''' then (None, [])
      else
        (case UserChannelPermissions d (Discord_UserID d) channel of
           (p, err) \<Rightarrow>
             if err \<noteq> None then SendMessage d channel message
             else if p AND PermissionEmbedLinks = PermissionEmbedLinks then
               Session_call d
                 (ChannelMessageSendEmbed channel
                    \<lparr>Embed_Color = UserColor d (Discord_UserID d) channel,
                     Embed_Description = message\<rparr>)
             else SendMessage d channel message))"

definition SendFile :: "Discord \<Rightarrow> string \<Rightarrow> string \<Rightarrow> string \<Rightarrow> error option \<times> call list" where
  "SendFile d channel name r = Session_call d (ChannelFileSend channel name r)"

section \<open>Example data\<close>

text \<open>
  A client with two shards, used where a property is evaluated on concrete data. The
  first shard has an empty cache (every lookup answers with the library's
  \<open>ErrStateNotFound\<close>); the second knows the channel \<open>5\<close> (\<open>general\<close>) of the guild
  \<open>9\<close>, whose second role is named like a channel mention. \<open>client_without_shards\<close>
  is a client whose shard list is empty, as it is before \<open>Open\<close> has filled it.
\<close>

definition ErrStateNotFound :: error where
  "ErrStateNotFound = Error ''state cache not found''"

definition empty_State :: discordgo_State where
  "empty_State =
     \<lparr>State_User = None,
      State_Channel = (\<lambda>channelID. (None, Some ErrStateNotFound)),
      State_Guild = (\<lambda>guildID. (None, Some ErrStateNotFound)),
      State_UserChannelPermissions = (\<lambda>userID channelID. (0, Some ErrStateNotFound)),
      State_UserColor = (\<lambda>userID channelID. 0)\<rparr>"

definition general_Channel :: discordgo_Channel where
  "general_Channel = \<lparr>Channel_ID = ''5'', Channel_GuildID = ''9'', Channel_Name = ''general''\<rparr>"

definition example_Guild :: discordgo_Guild where
  "example_Guild =
     \<lparr>Guild_ID = ''9'', Guild_OwnerID = ''7'',
      Guild_Roles = [\<lparr>Role_ID = ''1'', Role_Name = ''Admins''\<rparr>,
                     \<lparr>Role_ID = ''2'', Role_Name = ''<#5>''\<rparr>],
      Guild_Members =
        [\<lparr>Member_User = \<lparr>User_ID = ''42'', User_Username = ''ann'', User_Avatar = ''a1'',
                          User_Bot = False\<rparr>,
          Member_Nick = ''Annie''\<rparr>]\<rparr>"

definition example_State :: discordgo_State where
  "example_State =
     \<lparr>State_User = Some \<lparr>User_ID = ''42'', User_Username = ''ann'', User_Avatar = ''a1'',
                          User_Bot = False\<rparr>,
      State_Channel = (\<lambda>channelID.
        if channelID = ''5'' then (Some general_Channel, None) else (None, Some ErrStateNotFound)),
      State_Guild = (\<lambda>guildID.
        if guildID = ''9'' then (Some example_Guild, None) else (None, Some ErrStateNotFound)),
      State_UserChannelPermissions = (\<lambda>userID channelID.
        if userID = ''42'' \<and> channelID = ''5'' then (16384, None)
        else if userID = ''42'' \<and> channelID = ''6'' then (2048, None)
        else (0, Some ErrStateNotFound)),
      State_UserColor = (\<lambda>userID channelID.
        if userID = ''42'' \<and> channelID = ''5'' then 255 else 0)\<rparr>"

definition empty_shard :: discordgo_Session where
  "empty_shard = \<lparr>Session_State = empty_State, Session_transport = (\<lambda>c. None)\<rparr>"

definition example_shard :: discordgo_Session where
  "example_shard = \<lparr>Session_State = example_State, Session_transport = (\<lambda>c. None)\<rparr>"

definition example_client :: Discord where
  "example_client =
     \<lparr>Discord_Session = example_shard, Discord_Sessions = [empty_shard, example_shard],
      OwnerUserID = ''7''\<rparr>"

definition client_without_shards :: Discord where
  "client_without_shards =
     \<lparr>Discord_Session = example_shard, Discord_Sessions = [], OwnerUserID = ''7''\<rparr>"

definition example_Message :: discordgo_Message where
  "example_Message =
     \<lparr>Message_ID = ''100'', Message_ChannelID = ''5'', Message_Content = ''<@&2>'',
      Message_Author = Some \<lparr>User_ID = ''42'', User_Username = ''ann'', User_Avatar = ''a1'',
                              User_Bot = False\<rparr>\<rparr>"

definition example_envelope :: DiscordMessage where
  "example_envelope =
     \<lparr>DiscordgoMessage = example_Message, MessageType = MessageTypeCreate,
      Nick = None, Content = None\<rparr>"

definition deleted_Message :: discordgo_Message where
  "deleted_Message =
     \<lparr>Message_ID = ''100'', Message_ChannelID = ''5'', Message_Content = '''',
      Message_Author = None\<rparr>"

definition bot_Message :: discordgo_Message where
  "bot_Message =
     \<lparr>Message_ID = ''101'', Message_ChannelID = ''5'', Message_Content = ''beep'',
      Message_Author = Some \<lparr>User_ID = ''8'', User_Username = ''robot'', User_Avatar = '''',
                              User_Bot = True\<rparr>\<rparr>"

definition deleted_envelope :: DiscordMessage where
  "deleted_envelope =
     \<lparr>DiscordgoMessage = deleted_Message, MessageType = MessageTypeDelete,
      Nick = None, Content = None\<rparr>"

definition stray_Message :: discordgo_Message where
  "stray_Message =
     \<lparr>Message_ID = ''102'', Message_ChannelID = ''77'', Message_Content = ''<@&1>'',
      Message_Author = None\<rparr>"

lemmas fixtures = ErrStateNotFound_def empty_State_def general_Channel_def example_Guild_def
  example_State_def empty_shard_def example_shard_def example_client_def
  client_without_shards_def example_Message_def

section \<open>Lemmas\<close>

subsection \<open>The loops of the aggregator\<close>

text \<open>
  Each loop returns what the first session without an error answers; when there is none,
  it returns the answer of the last session, or the initial results on the empty list.
\<close>

lemma Channel_range_find:
  "Channel_range ss channelID res =
     (case find (\<lambda>s. snd (State_Channel (Session_State s) channelID) = None) ss of
        Some s \<Rightarrow> State_Channel (Session_State s) channelID
      | None \<Rightarrow> if ss = [] then res else State_Channel (Session_State (last ss)) channelID)"
  by (induction ss arbitrary: res) (auto split: prod.splits option.splits)

lemma Guild_range_find:
  "Guild_range ss guildID res =
     (case find (\<lambda>s. snd (State_Guild (Session_State s) guildID) = None) ss of
        Some s \<Rightarrow> State_Guild (Session_State s) guildID
      | None \<Rightarrow> if ss = [] then res else State_Guild (Session_State (last ss)) guildID)"
  by (induction ss arbitrary: res) (auto split: prod.splits option.splits)

lemma UserChannelPermissions_range_find:
  "UserChannelPermissions_range ss userID channelID res =
     (case find (\<lambda>s. snd (State_UserChannelPermissions (Session_State s) userID channelID) = None) ss of
        Some s \<Rightarrow> State_UserChannelPermissions (Session_State s) userID channelID
      | None \<Rightarrow> if ss = [] then res
                else State_UserChannelPermissions (Session_State (last ss)) userID channelID)"
  by (induction ss arbitrary: res) (auto split: prod.splits option.splits)

lemma UserColor_range_zero_iff:
  "UserColor_range ss userID channelID = 0 \<longleftrightarrow>
     (\<forall>s\<in>set ss. State_UserColor (Session_State s) userID channelID = 0)"
  by (induction ss) (auto simp: Let_def)

lemma UserColor_range_find:
  "UserColor_range ss userID channelID =
     (case find (\<lambda>s. State_UserColor (Session_State s) userID channelID \<noteq> 0) ss of
        Some s \<Rightarrow> State_UserColor (Session_State s) userID channelID
      | None \<Rightarrow> 0)"
  by (induction ss) (auto simp: Let_def)

lemma Channel_find:
  "Discord_Sessions d \<noteq> [] \<Longrightarrow> Channel d channelID =
       (case find (\<lambda>s. snd (State_Channel (Session_State s) channelID) = None) (Discord_Sessions d) of
          Some s \<Rightarrow> State_Channel (Session_State s) channelID
        | None \<Rightarrow> State_Channel (Session_State (last (Discord_Sessions d))) channelID)"
  by (simp add: Channel_def Channel_range_find)


lemma Channel_all_fail:
  assumes "Discord_Sessions d \<noteq> []"
    and "\<forall>s\<in>set (Discord_Sessions d). snd (State_Channel (Session_State s) channelID) \<noteq> None"
  shows "snd (Channel d channelID) \<noteq> None"
proof -
  from assms(2) have "find (\<lambda>s. snd (State_Channel (Session_State s) channelID) = None) (Discord_Sessions d) = None"
    by (simp add: find_None_iff)
  with Channel_find [OF assms(1), of channelID] assms show ?thesis by simp
qed

lemma Guild_find:
  "Discord_Sessions d \<noteq> [] \<Longrightarrow> Guild d guildID =
       (case find (\<lambda>s. snd (State_Guild (Session_State s) guildID) = None) (Discord_Sessions d) of
          Some s \<Rightarrow> State_Guild (Session_State s) guildID
        | None \<Rightarrow> State_Guild (Session_State (last (Discord_Sessions d))) guildID)"
  by (simp add: Guild_def Guild_range_find)

lemma Guild_all_fail:
  assumes "Discord_Sessions d \<noteq> []"
    and "\<forall>s\<in>set (Discord_Sessions d). snd (State_Guild (Session_State s) guildID) \<noteq> None"
  shows "snd (Guild d guildID) \<noteq> None"
proof -
  from assms(2) have "find (\<lambda>s. snd (State_Guild (Session_State s) guildID) = None) (Discord_Sessions d) = None"
    by (simp add: find_None_iff)
  with Guild_find [OF assms(1), of guildID] assms show ?thesis by simp
qed

lemma Channel_resolved_has_shards:
  "Channel d channelID = (Some c, None) \<Longrightarrow> Discord_Sessions d \<noteq> []"
  by (auto simp: Channel_def)


lemma UserChannelPermissions_find:
  "Discord_Sessions d \<noteq> [] \<Longrightarrow> UserChannelPermissions d userID channelID =
     (case find (\<lambda>s. snd (State_UserChannelPermissions (Session_State s) userID channelID) = None)
             (Discord_Sessions d) of
        Some s \<Rightarrow> State_UserChannelPermissions (Session_State s) userID channelID
      | None \<Rightarrow> State_UserChannelPermissions (Session_State (last (Discord_Sessions d)))
                  userID channelID)"
  by (simp add: UserChannelPermissions_def UserChannelPermissions_range_find)

lemma Roles_range_find:
  "Roles_range rs roleID str =
     (case find (\<lambda>r. Role_ID r = roleID) rs of
        Some r \<Rightarrow> ''@'' @ Role_Name r
      | None \<Rightarrow> str)"
  by (induction rs) auto

subsection \<open>The scan of \<open>ReplaceAllStringFunc\<close>\<close>

text \<open>
  A match never runs into a following \<open><\<close>: the literal prefixes contain \<open><\<close> only
  as their first byte, and neither a digit nor \<open>>\<close> is \<open><\<close>. So a token in the input
  is always found, whatever precedes it, and the input before and after it is scanned
  as it would be alone.
\<close>

lemma matchLiteral_self: "matchLiteral lit (lit @ r) = Some r"
  by (induction lit) auto

lemma matchLiteral_before_lt:
  "CHR ''<'' \<notin> set p \<Longrightarrow>
   matchLiteral p (x @ CHR ''<'' # y) =
     (case matchLiteral p x of None \<Rightarrow> None | Some r \<Rightarrow> Some (r @ CHR ''<'' # y))"
  by (induction p x rule: matchLiteral.induct) auto

lemma not_isDigit_special [simp]: "\<not> isDigit CHR ''<''" "\<not> isDigit CHR ''>''"
  by (simp_all add: isDigit_def)

lemma matchToken_token:
  assumes "\<forall>c\<in>set ds. isDigit c"
  shows "matchToken lit (lit @ ds @ CHR ''>'' # post) = Some (lit @ ds @ ''>'', post)"
proof -
  have "dropWhile isDigit (ds @ CHR ''>'' # post) = CHR ''>'' # post"
    using assms by (simp add: dropWhile_append)
  moreover have "takeWhile isDigit (ds @ CHR ''>'' # post) = ds"
    using assms by (simp add: takeWhile_append)
  ultimately show ?thesis
    by (simp add: matchToken_def matchLiteral_self)
qed

lemma matchToken_before_lt:
  assumes lit: "lit = CHR ''<'' # lit'" "CHR ''<'' \<notin> set lit'"
  shows "matchToken lit (c # cs @ CHR ''<'' # y) =
     (case matchToken lit (c # cs) of
        None \<Rightarrow> None
      | Some (m, rest) \<Rightarrow> Some (m, rest @ CHR ''<'' # y))"
proof (cases "matchLiteral lit (c # cs)")
  case None
  then show ?thesis
    using lit by (auto simp: matchToken_def matchLiteral_before_lt split: if_splits option.splits)
next
  case (Some r)
  then have app: "matchLiteral lit (c # cs @ CHR ''<'' # y) = Some (r @ CHR ''<'' # y)"
    using lit by (auto simp: matchLiteral_before_lt split: if_splits)
  show ?thesis
  proof (cases "\<forall>a\<in>set r. isDigit a")
    case True
    then have "dropWhile isDigit r = []" by simp
    moreover from True have "dropWhile isDigit (r @ CHR ''<'' # y) = CHR ''<'' # y"
      by (simp add: dropWhile_append)
    ultimately show ?thesis
      unfolding matchToken_def Some app option.case by (simp only: list.case) simp
  next
    case False
    then have d: "dropWhile isDigit (r @ CHR ''<'' # y) = dropWhile isDigit r @ CHR ''<'' # y"
      by (auto simp: dropWhile_append)
    from False have t: "takeWhile isDigit (r @ CHR ''<'' # y) = takeWhile isDigit r"
      by (auto simp: takeWhile_append)
    from False have "dropWhile isDigit r \<noteq> []" by auto
    then obtain a rest where ar: "dropWhile isDigit r = a # rest"
      by (cases "dropWhile isDigit r") auto
    show ?thesis
      unfolding matchToken_def Some app option.case d t ar by simp
  qed
qed

lemma pieces_nonempty:
  "s \<noteq> [] \<Longrightarrow> pieces lit s =
     (case matchToken lit s of
        Some (m, rest) \<Rightarrow> Matched m # pieces lit rest
      | None \<Rightarrow> Unmatched (hd s) # pieces lit (tl s))"
  by (cases s) (auto split: option.splits)

lemma pieces_token:
  assumes "lit = CHR ''<'' # lit'" "CHR ''<'' \<notin> set lit'" "\<forall>c\<in>set ds. isDigit c"
  shows "pieces lit (pre @ lit @ ds @ CHR ''>'' # post) =
           pieces lit pre @ Matched (lit @ ds @ ''>'') # pieces lit post"
  using assms
proof (induction lit pre rule: pieces.induct)
  case (1 lit)
  have "lit @ ds @ CHR ''>'' # post \<noteq> []" by simp
  from pieces_nonempty [OF this] matchToken_token [OF "1.prems"(3), of lit post]
  show ?case by simp
next
  case (2 lit c cs)
  let ?y = "lit' @ ds @ CHR ''>'' # post"
  have split: "(c # cs) @ lit @ ds @ CHR ''>'' # post = c # cs @ CHR ''<'' # ?y"
    using "2.prems"(1) by simp
  have rejoin: "rest @ CHR ''<'' # ?y = rest @ lit @ ds @ CHR ''>'' # post" for rest
    using "2.prems"(1) by simp
  note before = matchToken_before_lt [OF "2.prems"(1,2), of c cs ?y]
  show ?case
  proof (cases "matchToken lit (c # cs)")
    case None
    with before have "matchToken lit (c # cs @ CHR ''<'' # ?y) = None" by simp
    then have "pieces lit (c # cs @ CHR ''<'' # ?y) = Unmatched c # pieces lit (cs @ CHR ''<'' # ?y)"
      by simp
    with None "2.IH"(1) [OF None "2.prems"] show ?thesis
      unfolding split rejoin by simp
  next
    case (Some a)
    obtain m rest where a: "a = (m, rest)" by (cases a)
    with Some before have "matchToken lit (c # cs @ CHR ''<'' # ?y) = Some (m, rest @ CHR ''<'' # ?y)"
      by simp
    then have "pieces lit (c # cs @ CHR ''<'' # ?y) = Matched m # pieces lit (rest @ CHR ''<'' # ?y)"
      by simp
    with Some a "2.IH"(2) [OF Some a [symmetric] "2.prems"] show ?thesis
      unfolding split rejoin by simp
  qed
qed

lemma render_append:
  "render repl (ps @ qs) =
     bind_outcome (render repl ps) (\<lambda>a. bind_outcome (render repl qs) (\<lambda>b. Returns (a @ b)))"
proof (induction ps)
  case Nil
  show ?case by (cases "render repl qs") simp_all
next
  case (Cons p ps)
  show ?case
  proof (cases p)
    case (Unmatched c)
    with Cons show ?thesis
      by (cases "render repl ps"; cases "render repl qs") simp_all
  next
    case (Matched m)
    with Cons show ?thesis
      by (cases "repl m"; cases "render repl ps"; cases "render repl qs") simp_all
  qed
qed

lemma ReplaceAllStringFunc_token:
  assumes "lit = CHR ''<'' # lit'" "CHR ''<'' \<notin> set lit'" "\<forall>c\<in>set ds. isDigit c"
  shows "ReplaceAllStringFunc lit (pre @ lit @ ds @ CHR ''>'' # post) repl =
     bind_outcome (ReplaceAllStringFunc lit pre repl) (\<lambda>a.
       bind_outcome (repl (lit @ ds @ ''>'')) (\<lambda>r.
         bind_outcome (ReplaceAllStringFunc lit post repl) (\<lambda>b. Returns (a @ r @ b))))"
  unfolding ReplaceAllStringFunc_def pieces_token [OF assms] render_append
  by (cases "render repl (pieces lit pre)"; cases "repl (lit @ ds @ ''>'')";
      cases "render repl (pieces lit post)") simp_all


lemma replaceRoleNames_func_token:
  "replaceRoleNames_func d message (''<@&'' @ ds @ ''>'') =
     (case Channel d (Message_ChannelID message) of
         (c, err) \<Rightarrow>
           if err \<noteq> None then Returns (''<@&'' @ ds @ ''>'')
           else (case c of
                   None \<Rightarrow> Panics
                 | Some c \<Rightarrow>
                     (case Guild d (Channel_GuildID c) of
                        (g, err) \<Rightarrow>
                          if err \<noteq> None then Returns (''<@&'' @ ds @ ''>'')
                          else (case g of
                                  None \<Rightarrow> Panics
                                | Some g \<Rightarrow> Returns (Roles_range (Guild_Roles g) ds (''<@&'' @ ds @ ''>''))))))"
  by (simp add: replaceRoleNames_func_def slice_to_last_def split: prod.splits option.splits)


lemma replaceRoleNames_context:
  assumes "\<forall>c\<in>set ds. isDigit c"
  shows "replaceRoleNames d message (pre @ ''<@&'' @ ds @ ''>'' @ post) =
     bind_outcome (replaceRoleNames d message pre) (\<lambda>a.
       bind_outcome (replaceRoleNames_func d message (''<@&'' @ ds @ ''>'')) (\<lambda>r.
         bind_outcome (replaceRoleNames d message post) (\<lambda>b. Returns (a @ r @ b))))"
proof -
  have lit: "''<@&'' = CHR ''<'' # ''@&''" "CHR ''<'' \<notin> set ''@&''" by simp_all
  from ReplaceAllStringFunc_token [OF lit assms, of pre post "replaceRoleNames_func d message"]
  show ?thesis by (simp add: replaceRoleNames_def roleIDRegex_def)
qed

subsection \<open>Evaluation on the example data\<close>

lemmas scan = pieces.simps matchToken_def isDigit_def ReplaceAllStringFunc_def
  channelIDRegex_def roleIDRegex_def slice_to_last_def
  replaceRoleNames_def replaceChannelNames_def replaceRoleNames_func_def
  replaceChannelNames_func_def Channel_def Guild_def

lemma example_role_pass:
  "replaceRoleNames example_client example_Message ''<@&2>'' = Returns ''@<#5>''"
  by (simp add: scan fixtures)

lemma example_channel_pass:
  "replaceChannelNames example_client example_Message ''@<#5>'' = Returns ''@#general''"
  by (simp add: scan fixtures)

lemma example_channel_pass_first:
  "replaceChannelNames example_client example_Message ''<@&2>'' = Returns ''<@&2>''"
  by (simp add: scan fixtures)

lemma example_envelope_simps:
  "Content example_envelope = None" "Nick example_envelope = None"
  "DiscordgoMessage example_envelope = example_Message"
  "Message_Content example_Message = ''<@&2>''"
  by (simp_all add: example_envelope_def example_Message_def)

section \<open>Properties\<close>

subsection \<open>Action gateway: the empty channel\<close>

text \<open>
  \<open>SendMessage\<close>, \<open>SendEmbedMessage\<close> and \<open>SendAction\<close> start with the guard
  \<open>channel == ""\<close>: on the empty channel they return \<open>nil\<close> and make no call.
\<close>

lemma send_family_empty_channel_guard:
  "SendMessage d '''' message = (None, [])
   \<and> SendEmbedMessage d '''' embedMessage = (None, [])
   \<and> SendAction PermissionEmbedLinks d '''' message = (None, [])"
  by (simp add: SendMessage_def SendEmbedMessage_def SendAction_def)

text \<open>
  C1. For every send-family operation, an empty channel identifier means no call on the
  outbound transport and a \<open>nil\<close> error. \<open>SendFile\<close> has no such guard: given the empty
  channel it makes the call \<open>ChannelFileSend\<close> with the empty channel and returns the
  error the transport answers with. The theorem is the behaviour of \<open>SendFile\<close> on the
  empty channel, for every client, file name and reader.
\<close>

theorem SendFile_empty_channel_calls_transport:
  "SendFile d '''' name r =
     (Session_transport (Discord_Session d) (ChannelFileSend '''' name r),
      [ChannelFileSend '''' name r])"
  by (simp add: SendFile_def Session_call_def)

subsection \<open>Content normalizer: the order of the passes\<close>

text \<open>
  C2. When the normalized content of a message is first computed (\<open>Content\<close> is
  \<open>nil\<close>), the passes run unconditionally and in a fixed order. In the source the order
  is: the library's \<open>ContentWithMentionsReplaced\<close> on the raw message, then the
  role-mention pass, then the channel-mention pass; the result is cached in \<open>Content\<close>.
  So the normalized content is the channel pass applied to the output of the role pass
  (not the role pass applied to the output of the channel pass).
\<close>

theorem Message_pass_order:
  assumes "Content m = None"
  shows "DiscordMessage_Message ContentWithMentionsReplaced d m =
     bind_outcome
       (replaceRoleNames d (DiscordgoMessage m) (ContentWithMentionsReplaced (DiscordgoMessage m)))
       (\<lambda>afterRoles.
          bind_outcome (replaceChannelNames d (DiscordgoMessage m) afterRoles)
            (\<lambda>c. Returns (c, m\<lparr>Content := Some c\<rparr>)))"
  using assms by (simp add: DiscordMessage_Message_def)

text \<open>
  On the example message \<open><@&2>\<close>, whose role is named \<open><#5>\<close>: the role pass yields
  \<open>@<#5>\<close> and the channel pass then yields \<open>@#general\<close>.
\<close>

theorem Message_pass_order_witness:
  "Content example_envelope = None
   \<and> DiscordMessage_Message Message_Content example_client example_envelope
       = Returns (''@#general'', example_envelope\<lparr>Content := Some ''@#general''\<rparr>)"
  using Message_pass_order [where m = example_envelope
      and ContentWithMentionsReplaced = Message_Content and d = example_client]
  by (simp add: example_envelope_simps example_role_pass example_channel_pass)

text \<open>
  The order matters: with the channel pass first, the same message would become
  \<open>@<#5>\<close>, since the channel pass finds no token in \<open><@&2>\<close> and the role pass runs
  last. (\<open>Message_Content\<close> stands for \<open>ContentWithMentionsReplaced\<close> on a message
  that mentions no user.)
\<close>

theorem Message_is_not_role_pass_after_channel_pass:
  "\<not> (DiscordMessage_Message Message_Content example_client example_envelope =
        bind_outcome
          (replaceChannelNames example_client example_Message (Message_Content example_Message))
          (\<lambda>afterChannels.
             bind_outcome (replaceRoleNames example_client example_Message afterChannels)
               (\<lambda>c. Returns (c, example_envelope\<lparr>Content := Some c\<rparr>))))"
  by (simp add: DiscordMessage_Message_def example_envelope_simps example_role_pass
      example_channel_pass example_channel_pass_first)

subsection \<open>Event dispatcher\<close>

text \<open>
  C3. A Create or Update event whose raw content is empty, or whose author is flagged as
  a bot, is not sent on the output queue (the queue is unchanged); a Delete event is
  always sent, whatever its content and author.
\<close>

theorem dispatcher_filter:
  "(Message_Content message = '''' \<or> (\<exists>author. Message_Author message = Some author \<and> User_Bot author)
      \<longrightarrow> onMessageCreate messageChan message = messageChan
          \<and> onMessageUpdate messageChan message = messageChan)
   \<and> onMessageDelete messageChan message =
       messageChan @ [\<lparr>DiscordgoMessage = message, MessageType = MessageTypeDelete,
                       Nick = None, Content = None\<rparr>]"
  by (auto simp: onMessageCreate_def onMessageUpdate_def onMessageDelete_def)

text \<open>
  An event with empty content and no author, and an event of a bot, through the three
  handlers.
\<close>

theorem dispatcher_filter_witness:
  "onMessageCreate [example_envelope] deleted_Message = [example_envelope]
   \<and> onMessageUpdate [example_envelope] deleted_Message = [example_envelope]
   \<and> onMessageCreate [] bot_Message = []
   \<and> onMessageUpdate [] bot_Message = []
   \<and> onMessageDelete [example_envelope] deleted_Message =
        [example_envelope,
         \<lparr>DiscordgoMessage = deleted_Message, MessageType = MessageTypeDelete,
          Nick = None, Content = None\<rparr>]"
  using dispatcher_filter [where message = deleted_Message and messageChan = "[example_envelope]"]
    dispatcher_filter [where message = bot_Message and messageChan = "[]"]
  by (simp add: deleted_Message_def bot_Message_def)

subsection \<open>Message envelope: the two caches\<close>



subsection \<open>Content normalizer: channel mentions\<close>



subsection \<open>Content normalizer: role mentions\<close>

text \<open>
  C6. Let \<open><@&ds>\<close> be a role-mention token (\<open>ds\<close> a run of digits) anywhere in a
  message body. Normalization looks up the message's channel, then that channel's guild,
  then scans the guild's role list for the first role whose ID is \<open>ds\<close>. When all three
  succeed, the token is replaced with \<open>@\<close> and the role's name. When the channel lookup
  returns an error, or the guild lookup returns an error, or no role of the guild has the
  ID \<open>ds\<close>, the token is left unchanged. The third part reads the two misses at the
  shards: on a client with at least one shard (what \<open>Open\<close> leaves), the token is left
  unchanged when the message's channel is absent from every shard's cache, and when the
  channel is resolved and its guild is absent from every shard's cache.
\<close>

theorem replaceRoleNames_token:
  assumes "\<forall>c\<in>set ds. isDigit c"
  shows
    "(Channel d (Message_ChannelID message) = (Some c, None)
        \<and> Guild d (Channel_GuildID c) = (Some g, None)
        \<and> find (\<lambda>r. Role_ID r = ds) (Guild_Roles g) = Some r
      \<longrightarrow> replaceRoleNames d message (pre @ ''<@&'' @ ds @ ''>'' @ post) =
            bind_outcome (replaceRoleNames d message pre) (\<lambda>a.
              bind_outcome (replaceRoleNames d message post) (\<lambda>b.
                Returns (a @ ''@'' @ Role_Name r @ b))))
     \<and> (snd (Channel d (Message_ChannelID message)) \<noteq> None
        \<or> (Channel d (Message_ChannelID message) = (Some c, None)
            \<and> snd (Guild d (Channel_GuildID c)) \<noteq> None)
        \<or> (Channel d (Message_ChannelID message) = (Some c, None)
            \<and> Guild d (Channel_GuildID c) = (Some g, None)
            \<and> (\<forall>r\<in>set (Guild_Roles g). Role_ID r \<noteq> ds))
      \<longrightarrow> replaceRoleNames d message (pre @ ''<@&'' @ ds @ ''>'' @ post) =
            bind_outcome (replaceRoleNames d message pre) (\<lambda>a.
              bind_outcome (replaceRoleNames d message post) (\<lambda>b.
                Returns (a @ ''<@&'' @ ds @ ''>'' @ b))))
     \<and> ((Discord_Sessions d \<noteq> []
          \<and> (\<forall>s\<in>set (Discord_Sessions d).
                snd (State_Channel (Session_State s) (Message_ChannelID message)) \<noteq> None))
        \<or> (Channel d (Message_ChannelID message) = (Some c, None)
            \<and> (\<forall>s\<in>set (Discord_Sessions d).
                  snd (State_Guild (Session_State s) (Channel_GuildID c)) \<noteq> None))
      \<longrightarrow> replaceRoleNames d message (pre @ ''<@&'' @ ds @ ''>'' @ post) =
            bind_outcome (replaceRoleNames d message pre) (\<lambda>a.
              bind_outcome (replaceRoleNames d message post) (\<lambda>b.
                Returns (a @ ''<@&'' @ ds @ ''>'' @ b))))"
proof -
  let ?tok = "''<@&'' @ ds @ ''>''"
  let ?cid = "Message_ChannelID message"
  have unchanged: "replaceRoleNames_func d message ?tok = Returns ?tok"
    if failed: "snd (Channel d ?cid) \<noteq> None
        \<or> (Channel d ?cid = (Some c, None) \<and> snd (Guild d (Channel_GuildID c)) \<noteq> None)
        \<or> (Channel d ?cid = (Some c, None) \<and> Guild d (Channel_GuildID c) = (Some g, None)
            \<and> (\<forall>r\<in>set (Guild_Roles g). Role_ID r \<noteq> ds))"
  proof -
    consider (channel) "snd (Channel d ?cid) \<noteq> None"
      | (guild) "Channel d ?cid = (Some c, None)" "snd (Guild d (Channel_GuildID c)) \<noteq> None"
      | (role) "Channel d ?cid = (Some c, None)" "Guild d (Channel_GuildID c) = (Some g, None)"
          "\<forall>r\<in>set (Guild_Roles g). Role_ID r \<noteq> ds"
      using failed by blast
    then show ?thesis
    proof cases
      case channel
      then show ?thesis
        unfolding replaceRoleNames_func_token by (cases "Channel d ?cid") simp
    next
      case guild
      then show ?thesis
        unfolding replaceRoleNames_func_token by (cases "Guild d (Channel_GuildID c)") simp
    next
      case role
      from role(3) have "find (\<lambda>r. Role_ID r = ds) (Guild_Roles g) = None"
        by (simp add: find_None_iff)
      with role(1,2) show ?thesis
        unfolding replaceRoleNames_func_token by (simp add: Roles_range_find)
    qed
  qed
  have absent: "snd (Channel d ?cid) \<noteq> None
        \<or> (Channel d ?cid = (Some c, None) \<and> snd (Guild d (Channel_GuildID c)) \<noteq> None)"
    if "(Discord_Sessions d \<noteq> []
          \<and> (\<forall>s\<in>set (Discord_Sessions d). snd (State_Channel (Session_State s) ?cid) \<noteq> None))
        \<or> (Channel d ?cid = (Some c, None)
            \<and> (\<forall>s\<in>set (Discord_Sessions d).
                  snd (State_Guild (Session_State s) (Channel_GuildID c)) \<noteq> None))"
    using that Channel_all_fail [of d ?cid] Guild_all_fail [of d "Channel_GuildID c"]
      Channel_resolved_has_shards [of d ?cid c]
    by blast
  show ?thesis
  proof (intro conjI impI)
    assume "Channel d ?cid = (Some c, None)
        \<and> Guild d (Channel_GuildID c) = (Some g, None)
        \<and> find (\<lambda>r. Role_ID r = ds) (Guild_Roles g) = Some r"
    then have "replaceRoleNames_func d message ?tok = Returns (''@'' @ Role_Name r)"
      unfolding replaceRoleNames_func_token by (simp add: Roles_range_find)
    then show "replaceRoleNames d message (pre @ ''<@&'' @ ds @ ''>'' @ post) =
            bind_outcome (replaceRoleNames d message pre) (\<lambda>a.
              bind_outcome (replaceRoleNames d message post) (\<lambda>b.
                Returns (a @ ''@'' @ Role_Name r @ b)))"
      unfolding replaceRoleNames_context [OF assms] by simp
  next
    assume "snd (Channel d ?cid) \<noteq> None
        \<or> (Channel d ?cid = (Some c, None) \<and> snd (Guild d (Channel_GuildID c)) \<noteq> None)
        \<or> (Channel d ?cid = (Some c, None) \<and> Guild d (Channel_GuildID c) = (Some g, None)
            \<and> (\<forall>r\<in>set (Guild_Roles g). Role_ID r \<noteq> ds))"
    from unchanged [OF this]
    show "replaceRoleNames d message (pre @ ''<@&'' @ ds @ ''>'' @ post) =
            bind_outcome (replaceRoleNames d message pre) (\<lambda>a.
              bind_outcome (replaceRoleNames d message post) (\<lambda>b.
                Returns (a @ ''<@&'' @ ds @ ''>'' @ b)))"
      unfolding replaceRoleNames_context [OF assms] by simp
  next
    assume "(Discord_Sessions d \<noteq> []
          \<and> (\<forall>s\<in>set (Discord_Sessions d). snd (State_Channel (Session_State s) ?cid) \<noteq> None))
        \<or> (Channel d ?cid = (Some c, None)
            \<and> (\<forall>s\<in>set (Discord_Sessions d).
                  snd (State_Guild (Session_State s) (Channel_GuildID c)) \<noteq> None))"
    from absent [OF this] have "snd (Channel d ?cid) \<noteq> None
        \<or> (Channel d ?cid = (Some c, None) \<and> snd (Guild d (Channel_GuildID c)) \<noteq> None)
        \<or> (Channel d ?cid = (Some c, None) \<and> Guild d (Channel_GuildID c) = (Some g, None)
            \<and> (\<forall>r\<in>set (Guild_Roles g). Role_ID r \<noteq> ds))"
      by blast
    from unchanged [OF this]
    show "replaceRoleNames d message (pre @ ''<@&'' @ ds @ ''>'' @ post) =
            bind_outcome (replaceRoleNames d message pre) (\<lambda>a.
              bind_outcome (replaceRoleNames d message post) (\<lambda>b.
                Returns (a @ ''<@&'' @ ds @ ''>'' @ b)))"
      unfolding replaceRoleNames_context [OF assms] by simp
  qed
qed

text \<open>
  On the example client: the role \<open>1\<close> of the message's guild, a role the guild does
  not have, and a message in a channel no shard knows.
\<close>

theorem replaceRoleNames_token_witness:
  "replaceRoleNames example_client example_Message (''hi '' @ ''<@&'' @ ''1'' @ ''>'' @ ''!'')
     = Returns ''hi @Admins!''
   \<and> replaceRoleNames example_client example_Message (''hi '' @ ''<@&'' @ ''3'' @ ''>'' @ ''!'')
     = Returns ''hi <@&3>!''
   \<and> replaceRoleNames example_client stray_Message (''hi '' @ ''<@&'' @ ''1'' @ ''>'' @ ''!'')
     = Returns ''hi <@&1>!''"
proof -
  have one: "\<forall>c\<in>set ''1''. isDigit c" and three: "\<forall>c\<in>set ''3''. isDigit c"
    by (simp_all add: isDigit_def)
  have pre: "replaceRoleNames example_client m ''hi '' = Returns ''hi ''"
    and post: "replaceRoleNames example_client m ''!'' = Returns ''!''" for m
    by (simp_all add: scan)
  have ch: "Channel example_client (Message_ChannelID example_Message) = (Some general_Channel, None)"
    and gu: "Guild example_client (Channel_GuildID general_Channel) = (Some example_Guild, None)"
    by (simp_all add: Channel_def Guild_def fixtures)
  have stray: "Discord_Sessions example_client \<noteq> []
      \<and> (\<forall>s\<in>set (Discord_Sessions example_client).
            snd (State_Channel (Session_State s) (Message_ChannelID stray_Message)) \<noteq> None)"
    by (simp add: fixtures stray_Message_def)
  have admins: "find (\<lambda>r. Role_ID r = ''1'') (Guild_Roles example_Guild)
                  = Some \<lparr>Role_ID = ''1'', Role_Name = ''Admins''\<rparr>"
    and none: "\<forall>r\<in>set (Guild_Roles example_Guild). Role_ID r \<noteq> ''3''"
    by (simp_all add: example_Guild_def)
  from replaceRoleNames_token [OF one, where d = example_client and message = example_Message
      and c = general_Channel and g = example_Guild
      and r = "\<lparr>Role_ID = ''1'', Role_Name = ''Admins''\<rparr>" and pre = "''hi ''"
      and post = "''!''"]
    replaceRoleNames_token [OF three, where d = example_client and message = example_Message
      and c = general_Channel and g = example_Guild
      and r = "\<lparr>Role_ID = ''1'', Role_Name = ''Admins''\<rparr>" and pre = "''hi ''"
      and post = "''!''"]
    replaceRoleNames_token [OF one, where d = example_client and message = stray_Message
      and c = general_Channel and g = example_Guild
      and r = "\<lparr>Role_ID = ''1'', Role_Name = ''Admins''\<rparr>" and pre = "''hi ''"
      and post = "''!''"]
    ch gu stray admins none
  show ?thesis
    by (simp add: pre post)
qed

subsection \<open>Action gateway: smart send\<close>

text \<open>
  C7. \<open>SendAction\<close> on a non-empty channel makes exactly one call. When the lookup of
  the acting user's permissions in the channel returns an error, the call is the plain
  text message. When it returns permissions \<open>p\<close> without an error and the embed-links
  bit is set in \<open>p\<close>, the call is an embed whose color is \<open>UserColor\<close> of the acting user
  in the channel and whose description is the message text. Otherwise the call is the
  plain text message. The error returned is the transport's answer to that call.
\<close>

theorem SendAction_embed_or_text:
  assumes "channel \<noteq> ''''"
  shows
    "(snd (UserChannelPermissions d (Discord_UserID d) channel) \<noteq> None
      \<longrightarrow> SendAction PermissionEmbedLinks d channel message =
            (Session_transport (Discord_Session d) (ChannelMessageSend channel message),
             [ChannelMessageSend channel message]))
     \<and> (UserChannelPermissions d (Discord_UserID d) channel = (p, None)
        \<and> p AND PermissionEmbedLinks = PermissionEmbedLinks
      \<longrightarrow> SendAction PermissionEmbedLinks d channel message =
            (Session_transport (Discord_Session d)
               (ChannelMessageSendEmbed channel
                  \<lparr>Embed_Color = UserColor d (Discord_UserID d) channel,
                   Embed_Description = message\<rparr>),
             [ChannelMessageSendEmbed channel
                \<lparr>Embed_Color = UserColor d (Discord_UserID d) channel,
                 Embed_Description = message\<rparr>]))
     \<and> (UserChannelPermissions d (Discord_UserID d) channel = (p, None)
        \<and> p AND PermissionEmbedLinks \<noteq> PermissionEmbedLinks
      \<longrightarrow> SendAction PermissionEmbedLinks d channel message =
            (Session_transport (Discord_Session d) (ChannelMessageSend channel message),
             [ChannelMessageSend channel message]))"
  using assms
  by (cases "UserChannelPermissions d (Discord_UserID d) channel")
     (simp add: SendAction_def SendMessage_def Session_call_def)

text \<open>
  On the example client (acting user \<open>42\<close>), with the bit \<open>0x4000\<close>: a channel where
  the user has the bit, one where the user has another bit only, and one where the
  lookup fails.
\<close>

theorem SendAction_embed_or_text_witness:
  "SendAction 16384 example_client ''5'' ''waves'' =
     (None, [ChannelMessageSendEmbed ''5'' \<lparr>Embed_Color = 255, Embed_Description = ''waves''\<rparr>])
   \<and> SendAction 16384 example_client ''6'' ''waves'' = (None, [ChannelMessageSend ''6'' ''waves''])
   \<and> SendAction 16384 example_client ''77'' ''waves'' = (None, [ChannelMessageSend ''77'' ''waves''])"
proof -
  have uid: "Discord_UserID example_client = ''42''"
    by (simp add: Discord_UserID_def fixtures)
  have p5: "UserChannelPermissions example_client ''42'' ''5'' = (16384, None)"
    and p6: "UserChannelPermissions example_client ''42'' ''6'' = (2048, None)"
    and p77: "snd (UserChannelPermissions example_client ''42'' ''77'') \<noteq> None"
    by (simp_all add: UserChannelPermissions_def fixtures)
  have color: "UserColor example_client ''42'' ''5'' = 255"
    by (simp add: UserColor_def fixtures)
  have tr: "Session_transport (Discord_Session example_client) c = None" for c
    by (simp add: fixtures)
  have ne: "''5'' \<noteq> ''''" "''6'' \<noteq> ''''" "''77'' \<noteq> ''''" by simp_all
  from SendAction_embed_or_text [OF ne(1), where d = example_client and p = 16384
      and PermissionEmbedLinks = 16384 and message = "''waves''"]
    SendAction_embed_or_text [OF ne(2), where d = example_client and p = 2048
      and PermissionEmbedLinks = 16384 and message = "''waves''"]
    SendAction_embed_or_text [OF ne(3), where d = example_client and p = 0
      and PermissionEmbedLinks = 16384 and message = "''waves''"]
    p5 p6 p77
  show ?thesis
    by (simp add: uid color tr)
qed

subsection \<open>State aggregator\<close>

text \<open>
  C8. \<open>UserColor\<close> returns \<open>0\<close> exactly when every shard answers \<open>0\<close> for the user and
  the channel, which includes the client whose shards have no data and the client
  without shards; otherwise it returns the first non-zero answer in shard order. A
  shard's answer \<open>0\<close> is all the client sees of a user without data and of a user whose
  color is zero, so the result \<open>0\<close> does not tell the two apart.
\<close>

theorem UserColor_zero_sentinel:
  "(UserColor d userID channelID = 0 \<longleftrightarrow>
      (\<forall>s\<in>set (Discord_Sessions d). State_UserColor (Session_State s) userID channelID = 0))
   \<and> UserColor d userID channelID =
       (case find (\<lambda>s. State_UserColor (Session_State s) userID channelID \<noteq> 0) (Discord_Sessions d) of
          Some s \<Rightarrow> State_UserColor (Session_State s) userID channelID
        | None \<Rightarrow> 0)"
  unfolding UserColor_def using UserColor_range_zero_iff UserColor_range_find by blast

text \<open>
  A client without shards, a user without a color in a channel, and a user with one.
\<close>

theorem UserColor_zero_sentinel_witness:
  "UserColor client_without_shards ''42'' ''5'' = 0
   \<and> UserColor example_client ''42'' ''6'' = 0
   \<and> UserColor example_client ''42'' ''5'' = 255"
  using UserColor_zero_sentinel [where d = client_without_shards and userID = "''42''"
      and channelID = "''5''"]
    UserColor_zero_sentinel [where d = example_client and userID = "''42''"
      and channelID = "''6''"]
    UserColor_zero_sentinel [where d = example_client and userID = "''42''"
      and channelID = "''5''"]
  by (simp add: fixtures)

text \<open>
  C9. On a client with at least one shard, which is what \<open>Open\<close> leaves (it reads
  \<open>d.Sessions[0]\<close>), \<open>Channel\<close>, \<open>Guild\<close> and \<open>UserChannelPermissions\<close> return the
  result of the first shard, in list order, whose lookup returns no error. If every
  shard's lookup returns an error, they return the result of the last shard, so they
  return an error; if every shard's lookup returns the not-found error, they return the
  not-found error.
\<close>

theorem aggregator_first_success_or_last_error:
  assumes "Discord_Sessions d \<noteq> []"
  shows
    "Channel d channelID =
       (case find (\<lambda>s. snd (State_Channel (Session_State s) channelID) = None) (Discord_Sessions d) of
          Some s \<Rightarrow> State_Channel (Session_State s) channelID
        | None \<Rightarrow> State_Channel (Session_State (last (Discord_Sessions d))) channelID)
     \<and> Guild d guildID =
       (case find (\<lambda>s. snd (State_Guild (Session_State s) guildID) = None) (Discord_Sessions d) of
          Some s \<Rightarrow> State_Guild (Session_State s) guildID
        | None \<Rightarrow> State_Guild (Session_State (last (Discord_Sessions d))) guildID)
     \<and> UserChannelPermissions d userID channelID =
       (case find (\<lambda>s. snd (State_UserChannelPermissions (Session_State s) userID channelID) = None)
               (Discord_Sessions d) of
          Some s \<Rightarrow> State_UserChannelPermissions (Session_State s) userID channelID
        | None \<Rightarrow> State_UserChannelPermissions (Session_State (last (Discord_Sessions d)))
                    userID channelID)
     \<and> ((\<forall>s\<in>set (Discord_Sessions d). snd (State_Channel (Session_State s) channelID) \<noteq> None)
          \<longrightarrow> snd (Channel d channelID) \<noteq> None)
     \<and> ((\<forall>s\<in>set (Discord_Sessions d). snd (State_Guild (Session_State s) guildID) \<noteq> None)
          \<longrightarrow> snd (Guild d guildID) \<noteq> None)
     \<and> ((\<forall>s\<in>set (Discord_Sessions d).
            snd (State_UserChannelPermissions (Session_State s) userID channelID) \<noteq> None)
          \<longrightarrow> snd (UserChannelPermissions d userID channelID) \<noteq> None)
     \<and> ((\<forall>s\<in>set (Discord_Sessions d). snd (State_Channel (Session_State s) channelID) = Some notFound)
          \<longrightarrow> snd (Channel d channelID) = Some notFound)
     \<and> ((\<forall>s\<in>set (Discord_Sessions d). snd (State_Guild (Session_State s) guildID) = Some notFound)
          \<longrightarrow> snd (Guild d guildID) = Some notFound)
     \<and> ((\<forall>s\<in>set (Discord_Sessions d).
            snd (State_UserChannelPermissions (Session_State s) userID channelID) = Some notFound)
          \<longrightarrow> snd (UserChannelPermissions d userID channelID) = Some notFound)"
proof -
  let ?ss = "Discord_Sessions d"
  note c = Channel_find [OF assms, of channelID]
  note g = Guild_find [OF assms, of guildID]
  note p = UserChannelPermissions_find [OF assms, of userID channelID]
  have last_in: "last ?ss \<in> set ?ss" using assms by simp
  have c': "snd (Channel d channelID) \<noteq> None"
    if fails: "\<forall>s\<in>set ?ss. snd (State_Channel (Session_State s) channelID) \<noteq> None"
  proof -
    from fails have "find (\<lambda>s. snd (State_Channel (Session_State s) channelID) = None) ?ss = None"
      by (simp add: find_None_iff)
    with c fails last_in show ?thesis by simp
  qed
  have g': "snd (Guild d guildID) \<noteq> None"
    if fails: "\<forall>s\<in>set ?ss. snd (State_Guild (Session_State s) guildID) \<noteq> None"
  proof -
    from fails have "find (\<lambda>s. snd (State_Guild (Session_State s) guildID) = None) ?ss = None"
      by (simp add: find_None_iff)
    with g fails last_in show ?thesis by simp
  qed
  have p': "snd (UserChannelPermissions d userID channelID) \<noteq> None"
    if fails: "\<forall>s\<in>set ?ss.
        snd (State_UserChannelPermissions (Session_State s) userID channelID) \<noteq> None"
  proof -
    from fails have "find (\<lambda>s. snd (State_UserChannelPermissions (Session_State s) userID channelID)
                        = None) ?ss = None"
      by (simp add: find_None_iff)
    with p fails last_in show ?thesis by simp
  qed
  have c'': "snd (Channel d channelID) = Some notFound"
    if fails: "\<forall>s\<in>set ?ss. snd (State_Channel (Session_State s) channelID) = Some notFound"
  proof -
    from fails have "find (\<lambda>s. snd (State_Channel (Session_State s) channelID) = None) ?ss = None"
      by (simp add: find_None_iff)
    with c fails last_in show ?thesis by simp
  qed
  have g'': "snd (Guild d guildID) = Some notFound"
    if fails: "\<forall>s\<in>set ?ss. snd (State_Guild (Session_State s) guildID) = Some notFound"
  proof -
    from fails have "find (\<lambda>s. snd (State_Guild (Session_State s) guildID) = None) ?ss = None"
      by (simp add: find_None_iff)
    with g fails last_in show ?thesis by simp
  qed
  have p'': "snd (UserChannelPermissions d userID channelID) = Some notFound"
    if fails: "\<forall>s\<in>set ?ss.
        snd (State_UserChannelPermissions (Session_State s) userID channelID) = Some notFound"
  proof -
    from fails have "find (\<lambda>s. snd (State_UserChannelPermissions (Session_State s) userID channelID)
                        = None) ?ss = None"
      by (simp add: find_None_iff)
    with p fails last_in show ?thesis by simp
  qed
  from c g p c' g' p' c'' g'' p'' show ?thesis by blast
qed

text \<open>
  On the example client: lookups that the second shard answers, and lookups that no
  shard answers.
\<close>

theorem aggregator_first_success_or_last_error_witness:
  "Discord_Sessions example_client \<noteq> []
   \<and> Channel example_client ''5'' = (Some general_Channel, None)
   \<and> Guild example_client ''9'' = (Some example_Guild, None)
   \<and> UserChannelPermissions example_client ''42'' ''5'' = (16384, None)
   \<and> Channel example_client ''77'' = (None, Some ErrStateNotFound)
   \<and> snd (Guild example_client ''77'') = Some ErrStateNotFound
   \<and> snd (UserChannelPermissions example_client ''1'' ''77'') = Some ErrStateNotFound"
proof -
  have ne: "Discord_Sessions example_client \<noteq> []" by (simp add: example_client_def)
  from aggregator_first_success_or_last_error [OF ne, where channelID = "''5''"
      and guildID = "''9''" and userID = "''42''" and notFound = ErrStateNotFound]
    aggregator_first_success_or_last_error [OF ne, where channelID = "''77''"
      and guildID = "''77''" and userID = "''1''" and notFound = ErrStateNotFound]
  show ?thesis
    by (simp add: fixtures)
qed

subsection \<open>Message envelope: events without an author\<close>

text \<open>
  C10. For an envelope whose raw event has no author, \<open>UserName\<close>, \<open>UserID\<close> and
  \<open>UserAvatar\<close> return the empty string, on every client; \<open>UserName\<close> returns the
  envelope as it was, so nothing is written to \<open>Nick\<close>.
\<close>

theorem accessors_without_author:
  assumes "Message_Author (DiscordgoMessage m) = None"
  shows "DiscordMessage_UserName d m = Returns ('''', m)
         \<and> DiscordMessage_UserID m = ''''
         \<and> DiscordMessage_UserAvatar EndpointUserAvatar m = ''''"
  using assms
  by (simp add: DiscordMessage_UserName_def DiscordMessage_UserID_def DiscordMessage_UserAvatar_def)

text \<open>
  The envelope of a Delete event without author, on a client without shards.
\<close>

theorem accessors_without_author_witness:
  "Message_Author (DiscordgoMessage deleted_envelope) = None
   \<and> DiscordMessage_UserName client_without_shards deleted_envelope = Returns ('''', deleted_envelope)
   \<and> Nick deleted_envelope = None
   \<and> DiscordMessage_UserID deleted_envelope = ''''
   \<and> DiscordMessage_UserAvatar (\<lambda>userID avatar. ''avatars/'' @ userID @ ''/'' @ avatar)
        deleted_envelope = ''''"
proof -
  have a: "Message_Author (DiscordgoMessage deleted_envelope) = None"
    by (simp add: deleted_envelope_def deleted_Message_def)
  from a accessors_without_author [OF a] show ?thesis
    by (simp add: deleted_envelope_def)
qed

end
